theory Spec2Isabelle
  imports Complex_Main "HOL-Library.Word"
begin

unbundle bit_operations_syntax

section \<open>Python values\<close>

text \<open>
  The nodes of \<^verbatim>\<open>module/node.py\<close> pass around what \<^verbatim>\<open>json.loads\<close> and
  \<^verbatim>\<open>response.json()\<close> return: \<^verbatim>\<open>None\<close>, booleans, unbounded integers, floats,
  strings, lists and dictionaries with string keys. A Python float is an IEEE-754
  double; the code never calculates with one, so it is kept as its 64 bits. A
  dictionary is an association list in insertion order, its keys distinct; a lookup is
  \<open>map_of\<close>.

  A \<open>string\<close> is a Python \<^verbatim>\<open>str\<close> whose code points are below 256, one \<open>char\<close>
  per code point. The source's message literals are Chinese; in this file every code
  point beyond ASCII of such a literal is spelled \<^verbatim>\<open><U+XXXX>\<close>.
\<close>

datatype pyval =
    PNone
  | PBool bool
  | PInt int
  | PFloat "64 word"
  | PStr string
  | PList "pyval list"
  | PDict "(string \<times> pyval) list"

text \<open>The value of a double as a rational; \<open>None\<close> for the infinities and NaN.\<close>

definition float_value :: "64 word \<Rightarrow> rat option" where
  "float_value w =
     (let e = uint (drop_bit 52 w AND 0x7FF);
          m = uint (w AND 0xFFFFFFFFFFFFF);
          sgn = (if bit w 63 then - 1 else 1)
      in if e = 2047 then None
         else if e = 0 then Some (sgn * of_int m * power_int 2 (- 1074))
         else Some (sgn * of_int (2 ^ 52 + m) * power_int 2 (e - 1075)))"

text \<open>
  \<^verbatim>\<open>v == k\<close> for an integer literal \<open>k\<close>. Python compares numbers by value across
  \<^verbatim>\<open>bool\<close>, \<^verbatim>\<open>int\<close> and \<^verbatim>\<open>float\<close> (\<^verbatim>\<open>True == 1\<close>, \<^verbatim>\<open>2.0 == 2\<close>); any other
  value is different from a number.
\<close>

fun py_eq_int :: "pyval \<Rightarrow> int \<Rightarrow> bool" where
  "py_eq_int (PInt n) k = (n = k)"
| "py_eq_int (PBool b) k = ((if b then 1 else 0) = k)"
| "py_eq_int (PFloat w) k = (float_value w = Some (of_int k))"
| "py_eq_int _ k = False"

text \<open>Truth value testing, as in \<^verbatim>\<open>if auto_poll and job_id and ...\<close>.\<close>

fun truthy :: "pyval \<Rightarrow> bool" where
  "truthy PNone = False"
| "truthy (PBool b) = b"
| "truthy (PInt n) = (n \<noteq> 0)"
| "truthy (PFloat w) = (float_value w \<noteq> Some 0)"
| "truthy (PStr s) = (s \<noteq> [])"
| "truthy (PList xs) = (xs \<noteq> [])"
| "truthy (PDict kvs) = (kvs \<noteq> [])"

text \<open>\<^verbatim>\<open>d.get(key, default)\<close> on the items of a dictionary.\<close>

definition dict_get :: "(string \<times> pyval) list \<Rightarrow> string \<Rightarrow> pyval \<Rightarrow> pyval" where
  "dict_get kvs key dflt = (case map_of kvs key of None \<Rightarrow> dflt | Some v \<Rightarrow> v)"

text \<open>The name Python prints for the type of a value, as in the text of an \<^verbatim>\<open>AttributeError\<close>.\<close>

fun type_name :: "pyval \<Rightarrow> string" where
  "type_name PNone = ''NoneType''"
| "type_name (PBool b) = ''bool''"
| "type_name (PInt n) = ''int''"
| "type_name (PFloat w) = ''float''"
| "type_name (PStr s) = ''str''"
| "type_name (PList xs) = ''list''"
| "type_name (PDict kvs) = ''dict''"

section \<open>Strings\<close>

text \<open>
  \<^verbatim>\<open>str.strip()\<close> removes leading and trailing whitespace. Below 256 Python's
  whitespace is U+0009 to U+000D, U+001C to U+0020, U+0085 and U+00A0.
\<close>

definition is_space :: "char \<Rightarrow> bool" where
  "is_space c =
     (let n = (of_char c :: nat)
      in (9 \<le> n \<and> n \<le> 13) \<or> (28 \<le> n \<and> n \<le> 32) \<or> n = 133 \<or> n = 160)"

definition strip :: "string \<Rightarrow> string" where
  "strip s = rev (dropWhile is_space (rev (dropWhile is_space s)))"

text \<open>The guard \<^verbatim>\<open>not s or s.strip() == ""\<close> of the three API nodes.\<close>

definition blank :: "string \<Rightarrow> bool" where
  "blank s = (s = [] \<or> strip s = [])"

text \<open>
  \<^verbatim>\<open>s.split('.')\<close>: the pieces between the separators, never an empty list
  (\<^verbatim>\<open>"".split('.') == [""]\<close>).
\<close>

fun split_on :: "char \<Rightarrow> string \<Rightarrow> string list" where
  "split_on sep [] = [[]]"
| "split_on sep (c # cs) =
     (if c = sep then [] # split_on sep cs
      else (c # hd (split_on sep cs)) # tl (split_on sep cs))"

text \<open>
  \<^verbatim>\<open>str.isdigit()\<close>: at least one character, each of them a digit. Below 256 the
  digits are \<^verbatim>\<open>0\<close> to \<^verbatim>\<open>9\<close> and the superscripts U+00B2, U+00B3 and U+00B9.
  \<^verbatim>\<open>int(s)\<close> reads decimal digits only and raises \<^verbatim>\<open>ValueError\<close> on a superscript.
\<close>

definition is_ascii_digit :: "char \<Rightarrow> bool" where
  "is_ascii_digit c = (let n = (of_char c :: nat) in 48 \<le> n \<and> n \<le> 57)"

definition is_digit_char :: "char \<Rightarrow> bool" where
  "is_digit_char c =
     (let n = (of_char c :: nat) in is_ascii_digit c \<or> n = 178 \<or> n = 179 \<or> n = 185)"

definition isdigit :: "string \<Rightarrow> bool" where
  "isdigit s = (s \<noteq> [] \<and> list_all is_digit_char s)"

definition digit_val :: "char \<Rightarrow> int" where
  "digit_val c = int (of_char c) - 48"

definition py_int :: "string \<Rightarrow> int option" where
  "py_int s =
     (if s \<noteq> [] \<and> list_all is_ascii_digit s
      then Some (foldl (\<lambda>acc c. 10 * acc + digit_val c) 0 s)
      else None)"

text \<open>\<^verbatim>\<open>str(n)\<close> for an integer: its decimal digits, with a minus sign if negative.\<close>

fun str_nat :: "nat \<Rightarrow> string" where
  "str_nat n =
     (if n < 10 then [char_of (48 + n)]
      else str_nat (n div 10) @ [char_of (48 + n mod 10)])"

declare str_nat.simps [simp del]

definition str_int :: "int \<Rightarrow> string" where
  "str_int i = (if i < 0 then CHR ''-'' # str_nat (nat (- i)) else str_nat (nat i))"

section \<open>The standard library\<close>

text \<open>
  \<^verbatim>\<open>json.loads\<close>, \<^verbatim>\<open>json.dumps\<close> and the \<^verbatim>\<open>repr\<close> of floats and containers belong to
  Python, not to this repository, so the nodes take them as a parameter:
  \<^item> \<open>loads s\<close> is \<^verbatim>\<open>json.loads(s)\<close>, \<open>None\<close> where it raises \<^verbatim>\<open>JSONDecodeError\<close>;
  \<^item> \<open>dumps v\<close> is \<^verbatim>\<open>json.dumps(v, ensure_ascii=False)\<close>;
  \<^item> \<open>dumps_indent v\<close> is \<^verbatim>\<open>json.dumps(v, ensure_ascii=False, indent=2)\<close>;
  \<^item> \<open>py_repr v\<close> is \<^verbatim>\<open>str(v)\<close> for a float, a list or a dictionary.
  Failures for lack of resources (\<^verbatim>\<open>RecursionError\<close>, \<^verbatim>\<open>MemoryError\<close>, the
  interpreter's limit on the digits of an integer) are not modelled.
\<close>

record pylib =
  loads :: "string \<Rightarrow> pyval option"
  dumps :: "pyval \<Rightarrow> string"
  dumps_indent :: "pyval \<Rightarrow> string"
  py_repr :: "pyval \<Rightarrow> string"

text \<open>\<^verbatim>\<open>str(v)\<close>, also what an f-string writes for \<^verbatim>\<open>{v}\<close>.\<close>

fun py_str :: "pylib \<Rightarrow> pyval \<Rightarrow> string" where
  "py_str L PNone = ''None''"
| "py_str L (PBool b) = (if b then ''True'' else ''False'')"
| "py_str L (PInt n) = str_int n"
| "py_str L (PStr s) = s"
| "py_str L v = py_repr L v"

text \<open>
  The exception classes that the handlers of the source tell apart. An exception whose
  text the code copies into a result (\<^verbatim>\<open>str(e)\<close>) comes with that text.
\<close>

datatype exn_class =
    RequestException
  | JSONDecodeError
  | KeyError
  | ValueError
  | AttributeError
  | OtherException

type_synonym raised = "exn_class \<times> string"

section \<open>MidjourneyJSONExtractor\<close>

text \<open>
  The loop over the segments of the key path. A dictionary that has the key is entered;
  otherwise only a list with an all-digit segment goes on, and everything else raises
  \<^verbatim>\<open>KeyError\<close>. \<^verbatim>\<open>int(key)\<close> can raise \<^verbatim>\<open>ValueError\<close>.
\<close>

fun traverse :: "pyval \<Rightarrow> string list \<Rightarrow> exn_class + pyval" where
  "traverse current_data [] = Inr current_data"
| "traverse current_data (key # keys) =
     (case current_data of
        PDict kvs \<Rightarrow>
          (case map_of kvs key of
             Some v \<Rightarrow> traverse v keys
           | None \<Rightarrow> Inl KeyError)
      | PList xs \<Rightarrow>
          (if isdigit key then
             (case py_int key of
                None \<Rightarrow> Inl ValueError
              | Some index \<Rightarrow>
                  if 0 \<le> index \<and> index < int (length xs)
                  then traverse (xs ! nat index) keys
                  else Inl KeyError)
           else Inl KeyError)
      | _ \<Rightarrow> Inl KeyError)"

text \<open>\<^verbatim>\<open>isinstance(current_data, (dict, list))\<close>.\<close>

fun is_container :: "pyval \<Rightarrow> bool" where
  "is_container (PList xs) = True"
| "is_container (PDict kvs) = True"
| "is_container _ = False"

text \<open>The block under the comment \<^verbatim>\<open># handle the return value\<close>: the string \<^verbatim>\<open>result\<close>.\<close>

definition format_result :: "pylib \<Rightarrow> bool \<Rightarrow> pyval \<Rightarrow> string" where
  "format_result L return_as_string current_data =
     (if return_as_string then
        (if is_container current_data then dumps_indent L current_data
         else py_str L current_data)
      else (if current_data \<noteq> PNone then py_str L current_data else []))"

text \<open>
  The inner \<^verbatim>\<open>try\<close>: \<^verbatim>\<open>result\<close> is always a \<^verbatim>\<open>str\<close>, so it is parsed again, and
  is kept as it is when that raises \<^verbatim>\<open>JSONDecodeError\<close>.
\<close>

definition reparse :: "pylib \<Rightarrow> string \<Rightarrow> pyval" where
  "reparse L result = (case loads L result of Some v \<Rightarrow> v | None \<Rightarrow> PStr result)"

text \<open>
  What \<^verbatim>\<open>extract\<close> returns: on success the dictionary
  \<^verbatim>\<open>{"ui": {"json": [...], "text": [...]}, "result": (...,)}\<close>, in a handler the bare
  tuple \<^verbatim>\<open>(default_value,)\<close>. A tuple is the list of its components.
\<close>

datatype extract_out =
    NodeOutput (ui_json: "pyval list") (ui_text: "pyval list") (result_tuple: "pyval list")
  | Tuple "pyval list"

text \<open>
  \<^verbatim>\<open>json.loads(json_input) if isinstance(json_input, str) else json_input\<close>.
\<close>

definition parse_input :: "pylib \<Rightarrow> pyval \<Rightarrow> exn_class + pyval" where
  "parse_input L json_input =
     (case json_input of
        PStr s \<Rightarrow> (case loads L s of None \<Rightarrow> Inl JSONDecodeError | Some d \<Rightarrow> Inr d)
      | _ \<Rightarrow> Inr json_input)"

text \<open>The body of the outer \<^verbatim>\<open>try\<close>; \<open>Inl\<close> is the exception that leaves it.\<close>

definition extract_try :: "pylib \<Rightarrow> pyval \<Rightarrow> string \<Rightarrow> bool \<Rightarrow> exn_class + extract_out" where
  "extract_try L json_input key_path return_as_string =
     (case parse_input L json_input of
        Inl e \<Rightarrow> Inl e
      | Inr data \<Rightarrow>
          (case traverse data (split_on CHR ''.'' (strip key_path)) of
             Inl e \<Rightarrow> Inl e
           | Inr current_data \<Rightarrow>
               (let result = format_result L return_as_string current_data;
                    formatted_result = reparse L result
                in Inr (NodeOutput [formatted_result] [PStr result] [formatted_result]))))"

text \<open>
  The three handlers (\<^verbatim>\<open>JSONDecodeError\<close>, \<^verbatim>\<open>KeyError\<close>, \<^verbatim>\<open>Exception\<close>) differ in
  the line they log and return the same tuple. (\<open>extract\<close> is a keyword of
  Isabelle, hence the longer name.)
\<close>

definition extract_value :: "pylib \<Rightarrow> pyval \<Rightarrow> string \<Rightarrow> string \<Rightarrow> bool \<Rightarrow> extract_out" where
  "extract_value L json_input key_path default_value return_as_string =
     (case extract_try L json_input key_path return_as_string of
        Inr out \<Rightarrow> out
      | Inl JSONDecodeError \<Rightarrow> Tuple [PStr default_value]
      | Inl KeyError \<Rightarrow> Tuple [PStr default_value]
      | Inl _ \<Rightarrow> Tuple [PStr default_value])"

section \<open>The world outside\<close>

text \<open>
  A call of \<^verbatim>\<open>requests.post\<close> or \<^verbatim>\<open>requests.get\<close> with its keyword arguments.
\<close>

record request =
  req_method :: string
  req_url :: string
  req_headers :: "(string \<times> string) list"
  req_json :: "pyval option"
  req_timeout :: int

text \<open>
  The nodes talk to a remote service, read the clock and sleep. The world is a script
  of what the environment will answer, and a log of what the code has done to it:
  \<^item> \<open>http w n r\<close> is the outcome of the request \<open>r\<close> when \<open>n\<close> requests have been
    sent before it: the decoded body, if \<^verbatim>\<open>requests.get\<close> (or \<^verbatim>\<open>post\<close>),
    \<^verbatim>\<open>raise_for_status()\<close> and \<^verbatim>\<open>response.json()\<close> all succeed, and otherwise the
    exception, under the first handler of the source that catches it, with its text;
  \<^item> \<open>sent w\<close> are the requests sent so far, the oldest first;
  \<^item> \<open>clock w n\<close> is what \<^verbatim>\<open>time.time()\<close> returns when it has been read \<open>n\<close> times
    before, and \<open>ticks w\<close> counts the readings (the clock is any sequence of numbers:
    nothing says that it advances);
  \<^item> \<open>slept w\<close> are the arguments of the calls of \<^verbatim>\<open>time.sleep\<close>.
  A reading of the clock is a rational number and a difference of two readings is exact:
  the rounding of Python's floating-point subtraction is not modelled. The calls of \<^verbatim>\<open>logger.info\<close> are left out: they return nothing and change nothing
  that the code reads.
\<close>

record world =
  http :: "nat \<Rightarrow> request \<Rightarrow> raised + pyval"
  sent :: "request list"
  clock :: "nat \<Rightarrow> rat"
  ticks :: nat
  slept :: "int list"

definition http_request :: "request \<Rightarrow> world \<Rightarrow> (raised + pyval) \<times> world" where
  "http_request r w = (http w (length (sent w)) r, w\<lparr>sent := sent w @ [r]\<rparr>)"

definition time_time :: "world \<Rightarrow> rat \<times> world" where
  "time_time w = (clock w (ticks w), w\<lparr>ticks := Suc (ticks w)\<rparr>)"

text \<open>\<^verbatim>\<open>time.sleep\<close> raises \<^verbatim>\<open>ValueError\<close> for a negative length.\<close>

definition time_sleep :: "int \<Rightarrow> world \<Rightarrow> raised + world" where
  "time_sleep secs w =
     (if secs < 0 then Inl (ValueError, ''sleep length must be non-negative'')
      else Inr (w\<lparr>slept := slept w @ [secs]\<rparr>))"

text \<open>\<^verbatim>\<open>v.get\<close> on a value that is no dictionary raises \<^verbatim>\<open>AttributeError\<close>.\<close>

definition no_attribute :: "pyval \<Rightarrow> string \<Rightarrow> raised" where
  "no_attribute v name =
     (AttributeError,
      [CHR 0x27] @ type_name v @ [CHR 0x27] @ '' object has no attribute ''
        @ [CHR 0x27] @ name @ [CHR 0x27])"

section \<open>Messages\<close>

definition msg_timeout :: "int \<Rightarrow> string" where
  "msg_timeout max_wait_time =
     ''<U+4EFB><U+52A1><U+8F6E><U+8BE2><U+8D85><U+65F6> ('' @ str_int max_wait_time
       @ ''<U+79D2>)''"

definition msg_poll_request_failed :: "string \<Rightarrow> string" where
  "msg_poll_request_failed e = ''<U+8F6E><U+8BE2><U+8BF7><U+6C42><U+5931><U+8D25>: '' @ e"

definition msg_poll_error :: "string \<Rightarrow> string" where
  "msg_poll_error e = ''<U+8F6E><U+8BE2><U+8FC7><U+7A0B><U+51FA><U+9519>: '' @ e"

definition msg_empty :: "string \<Rightarrow> string" where
  "msg_empty name = name @ '' <U+4E0D><U+80FD><U+4E3A><U+7A7A>''"

definition msg_api_request_failed :: "string \<Rightarrow> string" where
  "msg_api_request_failed e = ''API <U+8BF7><U+6C42><U+5931><U+8D25>: '' @ e"

definition msg_json_failed :: "string \<Rightarrow> string" where
  "msg_json_failed e = ''JSON <U+89E3><U+6790><U+5931><U+8D25>: '' @ e"

definition msg_unknown_error :: "string \<Rightarrow> string" where
  "msg_unknown_error e = ''<U+672A><U+77E5><U+9519><U+8BEF>: '' @ e"

section \<open>The status request and the loops\<close>

definition job_request :: "string \<Rightarrow> string \<Rightarrow> string \<Rightarrow> request" where
  "job_request job_url app_id secret_key =
     \<lparr>req_method = ''GET'', req_url = job_url,
      req_headers = [(''x-youchuan-app'', app_id), (''x-youchuan-secret'', secret_key),
                     (''Content-Type'', ''application/json'')],
      req_json = None, req_timeout = 10\<rparr>"

definition job_url_of :: "string \<Rightarrow> string" where
  "job_url_of job_id = ''https://ali.youchuan.cn/v1/tob/job/'' @ job_id"

text \<open>One pass through the body of a \<^verbatim>\<open>while True\<close> either returns or goes round again.\<close>

datatype 'a iteration = Return 'a | Continue

subsection \<open>\<^verbatim>\<open>_poll_job_result\<close>\<close>

text \<open>
  The body of the \<^verbatim>\<open>try\<close> inside the loop: the time limit is checked first, before
  the request is sent. \<open>Inl\<close> is the exception that leaves the \<^verbatim>\<open>try\<close>.
\<close>

definition poll_job_try ::
  "pyval \<Rightarrow> request \<Rightarrow> int \<Rightarrow> int \<Rightarrow> rat \<Rightarrow> world \<Rightarrow> (raised + pyval iteration) \<times> world"
where
  "poll_job_try job_id job_req poll_interval max_wait_time start_time w =
     (case time_time w of
        (now, w1) \<Rightarrow>
          if now - start_time > of_int max_wait_time
          then (Inr (Return (PDict [(''error'', PStr (msg_timeout max_wait_time)),
                                    (''job_id'', job_id)])), w1)
          else (case http_request job_req w1 of
                  (Inl e, w2) \<Rightarrow> (Inl e, w2)
                | (Inr result_data, w2) \<Rightarrow>
                    (case result_data of
                       PDict kvs \<Rightarrow>
                         (let job_status = dict_get kvs ''status'' (PInt 0)
                          in if py_eq_int job_status 2 then (Inr (Return result_data), w2)
                             else if py_eq_int job_status 3 then (Inr (Return result_data), w2)
                             else if py_eq_int job_status 1 then
                               (case time_sleep poll_interval w2 of
                                  Inl e \<Rightarrow> (Inl e, w2)
                                | Inr w3 \<Rightarrow> (Inr Continue, w3))
                             else (Inr (Return result_data), w2))
                     | _ \<Rightarrow> (Inl (no_attribute result_data ''get''), w2))))"

text \<open>The two handlers: \<^verbatim>\<open>RequestException\<close>, then \<^verbatim>\<open>Exception\<close>.\<close>

definition poll_job_except :: "pyval \<Rightarrow> raised \<Rightarrow> pyval" where
  "poll_job_except job_id e =
     (case e of
        (RequestException, m) \<Rightarrow>
          PDict [(''error'', PStr (msg_poll_request_failed m)), (''job_id'', job_id)]
      | (_, m) \<Rightarrow> PDict [(''error'', PStr (msg_poll_error m)), (''job_id'', job_id)])"

definition poll_job_iteration ::
  "pyval \<Rightarrow> request \<Rightarrow> int \<Rightarrow> int \<Rightarrow> rat \<Rightarrow> world \<Rightarrow> pyval iteration \<times> world"
where
  "poll_job_iteration job_id job_req poll_interval max_wait_time start_time w =
     (case poll_job_try job_id job_req poll_interval max_wait_time start_time w of
        (Inl e, w') \<Rightarrow> (Return (poll_job_except job_id e), w')
      | (Inr it, w') \<Rightarrow> (it, w'))"

text \<open>\<^verbatim>\<open>while True\<close>: \<open>None\<close> is a loop that never returns.\<close>

partial_function (option) poll_job_loop ::
  "pyval \<Rightarrow> request \<Rightarrow> int \<Rightarrow> int \<Rightarrow> rat \<Rightarrow> world \<Rightarrow> (pyval \<times> world) option"
where
  "poll_job_loop job_id job_req poll_interval max_wait_time start_time w =
     (case poll_job_iteration job_id job_req poll_interval max_wait_time start_time w of
        (Return r, w') \<Rightarrow> Some (r, w')
      | (Continue, w') \<Rightarrow>
          poll_job_loop job_id job_req poll_interval max_wait_time start_time w')"

text \<open>
  The job id comes from the response to the submission and may be any value; the
  f-string writes \<^verbatim>\<open>str(job_id)\<close> into the URL.
\<close>

definition poll_job_result ::
  "pylib \<Rightarrow> pyval \<Rightarrow> string \<Rightarrow> string \<Rightarrow> int \<Rightarrow> int \<Rightarrow> world \<Rightarrow> (pyval \<times> world) option"
where
  "poll_job_result L job_id app_id secret_key poll_interval max_wait_time w =
     (let job_req = job_request (job_url_of (py_str L job_id))
                      (if app_id \<noteq> [] then app_id else [])
                      (if secret_key \<noteq> [] then secret_key else [])
      in case time_time w of
           (start_time, w1) \<Rightarrow>
             poll_job_loop job_id job_req poll_interval max_wait_time start_time w1)"

section \<open>MidjourneyAPI\<close>

definition submit_request :: "string \<Rightarrow> string \<Rightarrow> string \<Rightarrow> string \<Rightarrow> request" where
  "submit_request endpoint app_id secret_key text =
     \<lparr>req_method = ''POST'', req_url = endpoint,
      req_headers = [(''x-youchuan-app'', app_id), (''x-youchuan-secret'', secret_key),
                     (''Content-Type'', ''application/json'')],
      req_json = Some (PDict [(''text'', PStr (strip text))]), req_timeout = 30\<rparr>"

text \<open>
  The body of the \<^verbatim>\<open>try\<close> of \<^verbatim>\<open>run\<close>. The outer \<open>None\<close> is a polling loop that
  never returns; \<open>Inl\<close> is the exception that leaves the \<^verbatim>\<open>try\<close>.
\<close>

definition run_try ::
  "pylib \<Rightarrow> string \<Rightarrow> string \<Rightarrow> string \<Rightarrow> string \<Rightarrow> int \<Rightarrow> int \<Rightarrow> bool \<Rightarrow> world
     \<Rightarrow> ((raised + string) \<times> world) option"
where
  "run_try L text app_id secret_key endpoint poll_interval max_wait_time auto_poll w =
     (if blank text then Some (Inl (ValueError, msg_empty ''text''), w)
      else if blank app_id then Some (Inl (ValueError, msg_empty ''app_id''), w)
      else if blank secret_key then Some (Inl (ValueError, msg_empty ''secret_key''), w)
      else
        (case http_request (submit_request endpoint app_id secret_key text) w of
           (Inl e, w1) \<Rightarrow> Some (Inl e, w1)
         | (Inr response_data, w1) \<Rightarrow>
             (case response_data of
                PDict kvs \<Rightarrow>
                  (let job_id = dict_get kvs ''id'' (PStr []);
                       job_status = dict_get kvs ''status'' (PInt 0)
                   in if auto_poll \<and> truthy job_id \<and> py_eq_int job_status 1 then
                        (case poll_job_result L job_id app_id secret_key
                                poll_interval max_wait_time w1 of
                           None \<Rightarrow> None
                         | Some (polled, w2) \<Rightarrow> Some (Inr (dumps_indent L polled), w2))
                      else Some (Inr (dumps_indent L response_data), w1))
              | _ \<Rightarrow> Some (Inl (no_attribute response_data ''get''), w1))))"

text \<open>
  The handlers of \<^verbatim>\<open>run\<close> and \<^verbatim>\<open>submit\<close>: \<^verbatim>\<open>RequestException\<close>,
  \<^verbatim>\<open>json.JSONDecodeError\<close>, \<^verbatim>\<open>Exception\<close>, each returning
  \<^verbatim>\<open>json.dumps({"error": error_msg}, ensure_ascii=False)\<close>.
\<close>

definition submit_except :: "pylib \<Rightarrow> raised \<Rightarrow> string" where
  "submit_except L e =
     (case e of
        (RequestException, m) \<Rightarrow> dumps L (PDict [(''error'', PStr (msg_api_request_failed m))])
      | (JSONDecodeError, m) \<Rightarrow> dumps L (PDict [(''error'', PStr (msg_json_failed m))])
      | (_, m) \<Rightarrow> dumps L (PDict [(''error'', PStr (msg_unknown_error m))]))"

text \<open>\<^verbatim>\<open>run\<close> returns a tuple of one string, here the string.\<close>

definition run ::
  "pylib \<Rightarrow> string \<Rightarrow> string \<Rightarrow> string \<Rightarrow> string \<Rightarrow> int \<Rightarrow> int \<Rightarrow> bool \<Rightarrow> world
     \<Rightarrow> (string \<times> world) option"
where
  "run L text app_id secret_key endpoint poll_interval max_wait_time auto_poll w =
     (case run_try L text app_id secret_key endpoint poll_interval max_wait_time auto_poll w of
        None \<Rightarrow> None
      | Some (Inl e, w') \<Rightarrow> Some (submit_except L e, w')
      | Some (Inr response, w') \<Rightarrow> Some (response, w'))"

section \<open>MidjourneyAPISubmit\<close>

definition submit_try ::
  "pylib \<Rightarrow> string \<Rightarrow> string \<Rightarrow> string \<Rightarrow> string \<Rightarrow> world
     \<Rightarrow> (raised + pyval \<times> string) \<times> world"
where
  "submit_try L text app_id secret_key endpoint w =
     (if blank text then (Inl (ValueError, msg_empty ''text''), w)
      else if blank app_id then (Inl (ValueError, msg_empty ''app_id''), w)
      else if blank secret_key then (Inl (ValueError, msg_empty ''secret_key''), w)
      else
        (case http_request (submit_request endpoint app_id secret_key text) w of
           (Inl e, w1) \<Rightarrow> (Inl e, w1)
         | (Inr response_data, w1) \<Rightarrow>
             (case response_data of
                PDict kvs \<Rightarrow>
                  (let job_id = dict_get kvs ''id'' (PStr [])
                   in (Inr (job_id, dumps_indent L response_data), w1))
              | _ \<Rightarrow> (Inl (no_attribute response_data ''get''), w1))))"

text \<open>\<^verbatim>\<open>submit\<close> returns the pair \<^verbatim>\<open>(job_id, response_json)\<close>.\<close>

definition submit ::
  "pylib \<Rightarrow> string \<Rightarrow> string \<Rightarrow> string \<Rightarrow> string \<Rightarrow> world \<Rightarrow> (pyval \<times> string) \<times> world"
where
  "submit L text app_id secret_key endpoint w =
     (case submit_try L text app_id secret_key endpoint w of
        (Inl e, w') \<Rightarrow> ((PStr [], submit_except L e), w')
      | (Inr r, w') \<Rightarrow> (r, w'))"

section \<open>MidjourneyAPIPoll\<close>

text \<open>
  The body of the \<^verbatim>\<open>try\<close> inside the loop of \<^verbatim>\<open>poll\<close>. The request comes first;
  the clock is read only after a response with status 1, when \<^verbatim>\<open>single_query\<close> is
  off. The second component of a result is the status code.
\<close>

definition poll_try ::
  "pylib \<Rightarrow> string \<Rightarrow> request \<Rightarrow> int \<Rightarrow> int \<Rightarrow> bool \<Rightarrow> rat \<Rightarrow> world
     \<Rightarrow> (raised + (string \<times> pyval) iteration) \<times> world"
where
  "poll_try L job_id job_req poll_interval max_wait_time single_query start_time w =
     (case http_request job_req w of
        (Inl e, w1) \<Rightarrow> (Inl e, w1)
      | (Inr result_data, w1) \<Rightarrow>
          (case result_data of
             PDict kvs \<Rightarrow>
               (let job_status = dict_get kvs ''status'' (PInt 0)
                in if py_eq_int job_status 2
                     then (Inr (Return (dumps_indent L result_data, PInt 2)), w1)
                   else if py_eq_int job_status 3
                     then (Inr (Return (dumps_indent L result_data, PInt 3)), w1)
                   else if single_query
                     then (Inr (Return (dumps_indent L result_data, job_status)), w1)
                   else if py_eq_int job_status 1 then
                     (case time_time w1 of
                        (now, w2) \<Rightarrow>
                          if now - start_time > of_int max_wait_time
                          then (Inr (Return
                                  (dumps L (PDict [(''error'', PStr (msg_timeout max_wait_time)),
                                                   (''job_id'', PStr job_id),
                                                   (''last_status'', job_status)]),
                                   PInt (- 1))), w2)
                          else (case time_sleep poll_interval w2 of
                                  Inl e \<Rightarrow> (Inl e, w2)
                                | Inr w3 \<Rightarrow> (Inr Continue, w3)))
                   else (Inr (Return (dumps_indent L result_data, job_status)), w1))
           | _ \<Rightarrow> (Inl (no_attribute result_data ''get''), w1)))"

definition poll_except :: "pylib \<Rightarrow> string \<Rightarrow> raised \<Rightarrow> string \<times> pyval" where
  "poll_except L job_id e =
     (case e of
        (RequestException, m) \<Rightarrow>
          (dumps L (PDict [(''error'', PStr (msg_poll_request_failed m)),
                           (''job_id'', PStr job_id)]), PInt 0)
      | (_, m) \<Rightarrow>
          (dumps L (PDict [(''error'', PStr (msg_poll_error m)),
                           (''job_id'', PStr job_id)]), PInt 0))"

definition poll_iteration ::
  "pylib \<Rightarrow> string \<Rightarrow> request \<Rightarrow> int \<Rightarrow> int \<Rightarrow> bool \<Rightarrow> rat \<Rightarrow> world
     \<Rightarrow> (string \<times> pyval) iteration \<times> world"
where
  "poll_iteration L job_id job_req poll_interval max_wait_time single_query start_time w =
     (case poll_try L job_id job_req poll_interval max_wait_time single_query start_time w of
        (Inl e, w') \<Rightarrow> (Return (poll_except L job_id e), w')
      | (Inr it, w') \<Rightarrow> (it, w'))"

text \<open>The request of \<^verbatim>\<open>poll\<close>: \<^verbatim>\<open>job_url\<close> and \<^verbatim>\<open>headers\<close>.\<close>

definition poll_request :: "string \<Rightarrow> string \<Rightarrow> string \<Rightarrow> request" where
  "poll_request job_id app_id secret_key =
     job_request (job_url_of (strip job_id)) app_id secret_key"

partial_function (option) poll_loop ::
  "pylib \<Rightarrow> string \<Rightarrow> request \<Rightarrow> int \<Rightarrow> int \<Rightarrow> bool \<Rightarrow> rat \<Rightarrow> world
     \<Rightarrow> ((string \<times> pyval) \<times> world) option"
where
  "poll_loop L job_id job_req poll_interval max_wait_time single_query start_time w =
     (case poll_iteration L job_id job_req poll_interval max_wait_time single_query
             start_time w of
        (Return r, w') \<Rightarrow> Some (r, w')
      | (Continue, w') \<Rightarrow>
          poll_loop L job_id job_req poll_interval max_wait_time single_query start_time w')"

text \<open>
  \<^verbatim>\<open>poll\<close> returns the pair \<^verbatim>\<open>(result, status)\<close>. The three guards return before
  anything is sent; the URL takes the stripped job id, the error objects the job id as
  it was given.
\<close>

definition poll ::
  "pylib \<Rightarrow> string \<Rightarrow> string \<Rightarrow> string \<Rightarrow> int \<Rightarrow> int \<Rightarrow> bool \<Rightarrow> world
     \<Rightarrow> ((string \<times> pyval) \<times> world) option"
where
  "poll L job_id app_id secret_key poll_interval max_wait_time single_query w =
     (if blank job_id
        then Some ((dumps L (PDict [(''error'', PStr (msg_empty ''job_id''))]), PInt 0), w)
      else if blank app_id
        then Some ((dumps L (PDict [(''error'', PStr (msg_empty ''app_id''))]), PInt 0), w)
      else if blank secret_key
        then Some ((dumps L (PDict [(''error'', PStr (msg_empty ''secret_key''))]), PInt 0), w)
      else
        (let job_req = poll_request job_id app_id secret_key
         in case time_time w of
              (start_time, w1) \<Rightarrow>
                poll_loop L job_id job_req poll_interval max_wait_time single_query
                  start_time w1))"

section \<open>An executable library for the examples\<close>

text \<open>
  The theorems below hold for every library. Their instances are computed with this
  one: a decoder and two encoders for JSON texts without floats and without
  \<^verbatim>\<open>\u\<close> escapes, and Python's \<^verbatim>\<open>repr\<close>. On a text with a fraction, an
  exponent, \<^verbatim>\<open>NaN\<close>, \<^verbatim>\<open>Infinity\<close> or a \<^verbatim>\<open>\u\<close> escape the decoder answers
  \<open>None\<close>, where \<^verbatim>\<open>json.loads\<close> may well succeed; the digits of a finite float are
  left unspecified. No instance below has either.
\<close>

subsection \<open>Decoding\<close>

datatype token =
    LBrace | RBrace | LBracket | RBracket | Colon | Comma
  | TString string | TInt int | TTrue | TFalse | TNull

definition unescape :: "char \<Rightarrow> char option" where
  "unescape c =
     (if c = CHR 0x22 \<or> c = CHR 0x5C \<or> c = CHR ''/'' then Some c
      else if c = CHR ''b'' then Some (CHR 0x08)
      else if c = CHR ''f'' then Some (CHR 0x0C)
      else if c = CHR ''n'' then Some (CHR 0x0A)
      else if c = CHR ''r'' then Some (CHR 0x0D)
      else if c = CHR ''t'' then Some (CHR 0x09)
      else None)"

fun lex_string :: "string \<Rightarrow> string \<Rightarrow> (string \<times> string) option" where
  "lex_string acc [] = None"
| "lex_string acc [c] = (if c = CHR 0x22 then Some (rev acc, []) else None)"
| "lex_string acc (c # d # cs) =
     (if c = CHR 0x22 then Some (rev acc, d # cs)
      else if c = CHR 0x5C then
        (case unescape d of None \<Rightarrow> None | Some x \<Rightarrow> lex_string (x # acc) cs)
      else if (of_char c :: nat) < 32 then None
      else lex_string (c # acc) (d # cs))"

definition lex_number :: "string \<Rightarrow> (int \<times> string) option" where
  "lex_number s =
     (let ds = takeWhile is_ascii_digit s
      in case py_int ds of
           None \<Rightarrow> None
         | Some n \<Rightarrow> if 1 < length ds \<and> hd ds = CHR ''0'' then None
                     else Some (n, dropWhile is_ascii_digit s))"

fun lex :: "nat \<Rightarrow> string \<Rightarrow> token list option" where
  "lex 0 s = (if s = [] then Some [] else None)"
| "lex (Suc n) [] = Some []"
| "lex (Suc n) (c # cs) =
     (if c = CHR '' '' \<or> c = CHR 0x09 \<or> c = CHR 0x0A \<or> c = CHR 0x0D then lex n cs
      else if c = CHR ''{'' then map_option ((#) LBrace) (lex n cs)
      else if c = CHR ''}'' then map_option ((#) RBrace) (lex n cs)
      else if c = CHR ''['' then map_option ((#) LBracket) (lex n cs)
      else if c = CHR '']'' then map_option ((#) RBracket) (lex n cs)
      else if c = CHR '':'' then map_option ((#) Colon) (lex n cs)
      else if c = CHR '','' then map_option ((#) Comma) (lex n cs)
      else if c = CHR 0x22 then
        (case lex_string [] cs of
           None \<Rightarrow> None
         | Some (s, rest) \<Rightarrow> map_option ((#) (TString s)) (lex n rest))
      else if c = CHR ''-'' then
        (case lex_number cs of
           None \<Rightarrow> None
         | Some (k, rest) \<Rightarrow> map_option ((#) (TInt (- k))) (lex n rest))
      else if is_ascii_digit c then
        (case lex_number (c # cs) of
           None \<Rightarrow> None
         | Some (k, rest) \<Rightarrow> map_option ((#) (TInt k)) (lex n rest))
      else if take 4 (c # cs) = ''null'' then map_option ((#) TNull) (lex n (drop 3 cs))
      else if take 4 (c # cs) = ''true'' then map_option ((#) TTrue) (lex n (drop 3 cs))
      else if take 5 (c # cs) = ''false'' then map_option ((#) TFalse) (lex n (drop 4 cs))
      else None)"

fun dict_set :: "(string \<times> pyval) list \<Rightarrow> string \<Rightarrow> pyval \<Rightarrow> (string \<times> pyval) list" where
  "dict_set [] k v = [(k, v)]"
| "dict_set ((k', v') # kvs) k v =
     (if k' = k then (k, v) # kvs else (k', v') # dict_set kvs k v)"

fun parse_value :: "nat \<Rightarrow> token list \<Rightarrow> (pyval \<times> token list) option"
  and parse_items :: "nat \<Rightarrow> pyval list \<Rightarrow> token list \<Rightarrow> (pyval \<times> token list) option"
  and parse_members ::
    "nat \<Rightarrow> (string \<times> pyval) list \<Rightarrow> token list \<Rightarrow> (pyval \<times> token list) option"
where
  "parse_value 0 ts = None"
| "parse_value (Suc n) [] = None"
| "parse_value (Suc n) (t # ts) =
     (case t of
        TNull \<Rightarrow> Some (PNone, ts)
      | TTrue \<Rightarrow> Some (PBool True, ts)
      | TFalse \<Rightarrow> Some (PBool False, ts)
      | TInt k \<Rightarrow> Some (PInt k, ts)
      | TString s \<Rightarrow> Some (PStr s, ts)
      | LBracket \<Rightarrow>
          (case ts of RBracket # rest \<Rightarrow> Some (PList [], rest) | _ \<Rightarrow> parse_items n [] ts)
      | LBrace \<Rightarrow>
          (case ts of RBrace # rest \<Rightarrow> Some (PDict [], rest) | _ \<Rightarrow> parse_members n [] ts)
      | _ \<Rightarrow> None)"
| "parse_items 0 acc ts = None"
| "parse_items (Suc n) acc ts =
     (case parse_value n ts of
        None \<Rightarrow> None
      | Some (v, rest) \<Rightarrow>
          (case rest of
             Comma # rest' \<Rightarrow> parse_items n (acc @ [v]) rest'
           | RBracket # rest' \<Rightarrow> Some (PList (acc @ [v]), rest')
           | _ \<Rightarrow> None))"
| "parse_members 0 acc ts = None"
| "parse_members (Suc n) acc ts =
     (case ts of
        TString k # Colon # ts' \<Rightarrow>
          (case parse_value n ts' of
             None \<Rightarrow> None
           | Some (v, rest) \<Rightarrow>
               (case rest of
                  Comma # rest' \<Rightarrow> parse_members n (dict_set acc k v) rest'
                | RBrace # rest' \<Rightarrow> Some (PDict (dict_set acc k v), rest')
                | _ \<Rightarrow> None))
      | _ \<Rightarrow> None)"

definition json_loads :: "string \<Rightarrow> pyval option" where
  "json_loads s =
     (case lex (length s) s of
        None \<Rightarrow> None
      | Some ts \<Rightarrow>
          (case parse_value (2 * length ts + 2) ts of
             Some (v, []) \<Rightarrow> Some v
           | _ \<Rightarrow> None))"

subsection \<open>Encoding\<close>

fun join :: "string \<Rightarrow> string list \<Rightarrow> string" where
  "join sep [] = []"
| "join sep [x] = x"
| "join sep (x # y # ys) = x @ sep @ join sep (y # ys)"

definition hex_digit :: "nat \<Rightarrow> char" where
  "hex_digit n = (if n < 10 then char_of (48 + n) else char_of (87 + n))"

definition json_escape :: "char \<Rightarrow> string" where
  "json_escape c =
     (if c = CHR 0x22 then [CHR 0x5C, CHR 0x22]
      else if c = CHR 0x5C then [CHR 0x5C, CHR 0x5C]
      else if c = CHR 0x08 then [CHR 0x5C, CHR ''b'']
      else if c = CHR 0x0C then [CHR 0x5C, CHR ''f'']
      else if c = CHR 0x0A then [CHR 0x5C, CHR ''n'']
      else if c = CHR 0x0D then [CHR 0x5C, CHR ''r'']
      else if c = CHR 0x09 then [CHR 0x5C, CHR ''t'']
      else if (of_char c :: nat) < 32
        then [CHR 0x5C, CHR ''u'', CHR ''0'', CHR ''0'',
              hex_digit (of_char c div 16), hex_digit (of_char c mod 16)]
      else [c])"

definition json_string :: "string \<Rightarrow> string" where
  "json_string s = CHR 0x22 # concat (map json_escape s) @ [CHR 0x22]"

text \<open>
  The digits that \<^verbatim>\<open>float.__repr__\<close> prints for a finite float: not specified.
\<close>

definition float_repr :: "64 word \<Rightarrow> string" where
  "float_repr w = undefined w"

definition float_special :: "64 word \<Rightarrow> string \<Rightarrow> string \<Rightarrow> string \<Rightarrow> string" where
  "float_special w nan_text inf_text finite_text =
     (if uint (drop_bit 52 w AND 0x7FF) = 2047 then
        (if uint (w AND 0xFFFFFFFFFFFFF) \<noteq> 0 then nan_text
         else if bit w 63 then CHR ''-'' # inf_text else inf_text)
      else finite_text)"

fun json_dumps :: "pyval \<Rightarrow> string" where
  "json_dumps PNone = ''null''"
| "json_dumps (PBool b) = (if b then ''true'' else ''false'')"
| "json_dumps (PInt n) = str_int n"
| "json_dumps (PFloat w) = float_special w ''NaN'' ''Infinity'' (float_repr w)"
| "json_dumps (PStr s) = json_string s"
| "json_dumps (PList xs) = ''['' @ join '', '' (map json_dumps xs) @ '']''"
| "json_dumps (PDict kvs) =
     ''{'' @ join '', '' (map (\<lambda>(k, v). json_string k @ '': '' @ json_dumps v) kvs) @ ''}''"

fun json_dumps_level :: "nat \<Rightarrow> pyval \<Rightarrow> string" where
  "json_dumps_level lvl (PList xs) =
     (if xs = [] then ''[]''
      else ''['' @ CHR 0x0A # replicate (2 * Suc lvl) CHR '' ''
           @ join ('','' @ CHR 0x0A # replicate (2 * Suc lvl) CHR '' '')
               (map (json_dumps_level (Suc lvl)) xs)
           @ CHR 0x0A # replicate (2 * lvl) CHR '' '' @ '']'')"
| "json_dumps_level lvl (PDict kvs) =
     (if kvs = [] then ''{}''
      else ''{'' @ CHR 0x0A # replicate (2 * Suc lvl) CHR '' ''
           @ join ('','' @ CHR 0x0A # replicate (2 * Suc lvl) CHR '' '')
               (map (\<lambda>(k, v). json_string k @ '': '' @ json_dumps_level (Suc lvl) v) kvs)
           @ CHR 0x0A # replicate (2 * lvl) CHR '' '' @ ''}'')"
| "json_dumps_level lvl v = json_dumps v"
subsection \<open>\<^verbatim>\<open>repr\<close>\<close>

definition printable :: "char \<Rightarrow> bool" where
  "printable c =
     (let n = (of_char c :: nat) in (32 \<le> n \<and> n < 127) \<or> (161 \<le> n \<and> n \<noteq> 173))"

definition repr_escape :: "char \<Rightarrow> char \<Rightarrow> string" where
  "repr_escape quote c =
     (if c = quote \<or> c = CHR 0x5C then [CHR 0x5C, c]
      else if c = CHR 0x09 then [CHR 0x5C, CHR ''t'']
      else if c = CHR 0x0A then [CHR 0x5C, CHR ''n'']
      else if c = CHR 0x0D then [CHR 0x5C, CHR ''r'']
      else if printable c then [c]
      else [CHR 0x5C, CHR ''x'', hex_digit (of_char c div 16), hex_digit (of_char c mod 16)])"

definition repr_str :: "string \<Rightarrow> string" where
  "repr_str s =
     (let quote = (if CHR 0x27 \<in> set s \<and> CHR 0x22 \<notin> set s then CHR 0x22 else CHR 0x27)
      in quote # concat (map (repr_escape quote) s) @ [quote])"

fun repr_value :: "pyval \<Rightarrow> string" where
  "repr_value PNone = ''None''"
| "repr_value (PBool b) = (if b then ''True'' else ''False'')"
| "repr_value (PInt n) = str_int n"
| "repr_value (PFloat w) = float_special w ''nan'' ''inf'' (float_repr w)"
| "repr_value (PStr s) = repr_str s"
| "repr_value (PList xs) = ''['' @ join '', '' (map repr_value xs) @ '']''"
| "repr_value (PDict kvs) =
     ''{'' @ join '', '' (map (\<lambda>(k, v). repr_str k @ '': '' @ repr_value v) kvs) @ ''}''"

definition python :: pylib where
  "python = \<lparr>loads = json_loads, dumps = json_dumps, dumps_indent = json_dumps_level 0,
             py_repr = repr_value\<rparr>"

section \<open>Notions for stating the properties\<close>

text \<open>The \<^verbatim>\<open>status\<close> that the code reads from the outcome of a request, if there is one.\<close>

fun status_of :: "raised + pyval \<Rightarrow> pyval option" where
  "status_of (Inr (PDict kvs)) = Some (dict_get kvs ''status'' (PInt 0))"
| "status_of _ = None"

text \<open>
  The world after \<open>k\<close> rounds of a polling loop in which the job was still running:
  \<open>k\<close> requests, \<open>k\<close> readings of the clock and \<open>k\<close> sleeps later.
\<close>

definition after_rounds :: "request \<Rightarrow> int \<Rightarrow> nat \<Rightarrow> world \<Rightarrow> world" where
  "after_rounds r secs k w =
     w\<lparr>sent := sent w @ replicate k r, ticks := ticks w + k,
       slept := slept w @ replicate k secs\<rparr>"

text \<open>
  The transition rule of the specification, in its words: status 2 and status 3 are
  terminal, status 1 tries again, any other status is terminal.
\<close>

datatype transition = Terminal | Retry

definition spec_transition :: "pyval \<Rightarrow> transition" where
  "spec_transition status =
     (if py_eq_int status 2 then Terminal
      else if py_eq_int status 3 then Terminal
      else if py_eq_int status 1 then Retry
      else Terminal)"




text \<open>The first of the three inputs of a submission that its guards find blank.\<close>

definition first_blank :: "string \<Rightarrow> string \<Rightarrow> string \<Rightarrow> string" where
  "first_blank text app_id secret_key =
     (if blank text then ''text'' else if blank app_id then ''app_id'' else ''secret_key'')"

section \<open>Worlds for the examples\<close>

text \<open>
  A world that answers the requests with the given outcomes, in this order, and refuses
  the connection afterwards; its clock shows the given readings, then \<open>0\<close>.
\<close>

definition scripted :: "(raised + pyval) list \<Rightarrow> rat list \<Rightarrow> world" where
  "scripted outcomes readings =
     \<lparr>http = (\<lambda>n r. if n < length outcomes then outcomes ! n
                      else Inl (RequestException, ''connection refused'')),
      sent = [],
      clock = (\<lambda>n. if n < length readings then readings ! n else 0),
      ticks = 0,
      slept = []\<rparr>"

definition job_body :: "int \<Rightarrow> pyval" where
  "job_body status = PDict [(''id'', PStr ''job-1''), (''status'', PInt status)]"

text \<open>Two responses with status 1, then status 7; the clock shows 0, 4 and 8.\<close>

definition world_unknown :: world where
  "world_unknown = scripted [Inr (job_body 1), Inr (job_body 1), Inr (job_body 7)] [0, 4, 8]"

text \<open>Every response has status 1; the clock advances by 100 with every reading.\<close>

definition world_running :: world where
  "world_running =
     \<lparr>http = (\<lambda>n r. Inr (job_body 1)), sent = [], clock = (\<lambda>n. 100 * of_nat n),
      ticks = 0, slept = []\<rparr>"


text \<open>The submission is answered with an id and status 1, the status request with status 2.\<close>

definition world_job :: world where
  "world_job = scripted [Inr (job_body 1), Inr (job_body 2)] [0, 1]"



text \<open>The default of the parameter \<^verbatim>\<open>endpoint\<close>.\<close>

definition endpoint_default :: string where
  "endpoint_default = ''https://ali.youchuan.cn/v1/tob/diffusion''"

section \<open>Lemmas about the extractor\<close>

lemma extract_value_cases:
  "extract_value L json_input key_path default_value return_as_string =
     (case extract_try L json_input key_path return_as_string of
        Inr out \<Rightarrow> out | Inl e \<Rightarrow> Tuple [PStr default_value])"
  by (simp add: extract_value_def split: sum.splits exn_class.splits)

lemma traverse_append:
  "traverse data (ks1 @ ks2) =
     (case traverse data ks1 of Inl e \<Rightarrow> Inl e | Inr node \<Rightarrow> traverse node ks2)"
proof (induction ks1 arbitrary: data)
  case Nil
  show ?case by simp
next
  case (Cons k ks1)
  show ?case
    by (cases data) (simp_all add: Cons.IH split: option.splits)
qed

lemma traverse_missing_key:
  "map_of kvs key = None \<Longrightarrow> traverse (PDict kvs) (key # keys) = Inl KeyError"
  by simp

lemma traverse_out_of_range:
  "isdigit key \<Longrightarrow> py_int key = Some i \<Longrightarrow> int (length xs) \<le> i
     \<Longrightarrow> traverse (PList xs) (key # keys) = Inl KeyError"
  by simp

section \<open>Lemmas about the polling loop of \<^verbatim>\<open>poll\<close>\<close>

lemma py_eq_int_1: "py_eq_int v 1 \<Longrightarrow> \<not> py_eq_int v 2 \<and> \<not> py_eq_int v 3"
  by (cases v) (auto split: if_splits)

lemma status_of_SomeD:
  "status_of out = Some st
     \<Longrightarrow> \<exists>kvs. out = Inr (PDict kvs) \<and> st = dict_get kvs ''status'' (PInt 0)"
  by (cases out rule: status_of.cases) auto

lemma poll_loop_return:
  "poll_iteration L job_id r iv mx sq start w = (Return res, w')
     \<Longrightarrow> poll_loop L job_id r iv mx sq start w = Some (res, w')"
  by (subst poll_loop.simps) simp

lemma poll_loop_continue:
  "poll_iteration L job_id r iv mx sq start w = (Continue, w')
     \<Longrightarrow> poll_loop L job_id r iv mx sq start w = poll_loop L job_id r iv mx sq start w'"
  by (subst poll_loop.simps) simp

lemma after_rounds_simps [simp]:
  "http (after_rounds r secs k w) = http w"
  "clock (after_rounds r secs k w) = clock w"
  "sent (after_rounds r secs k w) = sent w @ replicate k r"
  "ticks (after_rounds r secs k w) = ticks w + k"
  "slept (after_rounds r secs k w) = slept w @ replicate k secs"
  by (simp_all add: after_rounds_def)

lemma after_rounds_0 [simp]: "after_rounds r secs 0 w = w"
  by (simp add: after_rounds_def)

lemma after_rounds_Suc:
  "after_rounds r secs 1 (after_rounds r secs k w) = after_rounds r secs (Suc k) w"
  by (simp add: after_rounds_def replicate_append_same)

lemma poll_iteration_running:
  assumes "status_of (http w (length (sent w)) r) = Some st" and "py_eq_int st 1"
    and "\<not> sq" and "\<not> clock w (ticks w) - start > of_int mx" and "0 \<le> iv"
  shows "poll_iteration L job_id r iv mx sq start w = (Continue, after_rounds r iv 1 w)"
proof -
  from assms(1) obtain kvs where b: "http w (length (sent w)) r = Inr (PDict kvs)"
    and st: "st = dict_get kvs ''status'' (PInt 0)"
    using status_of_SomeD by blast
  from assms(2) have n23: "\<not> py_eq_int st 2" "\<not> py_eq_int st 3"
    using py_eq_int_1 by blast+
  show ?thesis
    using b st n23 assms(2-5)
    by (simp add: poll_iteration_def poll_try_def http_request_def time_time_def
        time_sleep_def after_rounds_def Let_def)
qed

lemma poll_iteration_timeout:
  assumes "status_of (http w (length (sent w)) r) = Some st" and "py_eq_int st 1"
    and "\<not> sq" and "clock w (ticks w) - start > of_int mx"
  shows "poll_iteration L job_id r iv mx sq start w =
           (Return (dumps L (PDict [(''error'', PStr (msg_timeout mx)),
                                    (''job_id'', PStr job_id), (''last_status'', st)]),
                    PInt (- 1)),
            w\<lparr>sent := sent w @ [r], ticks := Suc (ticks w)\<rparr>)"
proof -
  from assms(1) obtain kvs where b: "http w (length (sent w)) r = Inr (PDict kvs)"
    and st: "st = dict_get kvs ''status'' (PInt 0)"
    using status_of_SomeD by blast
  from assms(2) have n23: "\<not> py_eq_int st 2" "\<not> py_eq_int st 3"
    using py_eq_int_1 by blast+
  show ?thesis
    using b st n23 assms(2-4)
    by (simp add: poll_iteration_def poll_try_def http_request_def time_time_def Let_def)
qed

lemma poll_iteration_other:
  assumes "http w (length (sent w)) r = Inr (PDict kvs)"
    and "st = dict_get kvs ''status'' (PInt 0)"
    and "\<not> py_eq_int st 1" and "\<not> py_eq_int st 2" and "\<not> py_eq_int st 3"
  shows "poll_iteration L job_id r iv mx sq start w =
           (Return (dumps_indent L (PDict kvs), st), w\<lparr>sent := sent w @ [r]\<rparr>)"
  using assms
  by (simp add: poll_iteration_def poll_try_def http_request_def Let_def)

lemma poll_iteration_raised:
  assumes "http w (length (sent w)) r = Inl e"
  shows "poll_iteration L job_id r iv mx sq start w =
           (Return (poll_except L job_id e), w\<lparr>sent := sent w @ [r]\<rparr>)"
  using assms
  by (simp add: poll_iteration_def poll_try_def http_request_def)

lemma poll_loop_rounds:
  assumes "\<not> sq" and "0 \<le> iv"
    and "\<forall>i<k. (\<exists>st. status_of (http w (length (sent w) + i) r) = Some st \<and> py_eq_int st 1)
                \<and> \<not> clock w (ticks w + i) - start > of_int mx"
  shows "poll_loop L job_id r iv mx sq start w
           = poll_loop L job_id r iv mx sq start (after_rounds r iv k w)"
  using assms(3)
proof (induction k)
  case 0
  show ?case by simp
next
  case (Suc k)
  let ?wk = "after_rounds r iv k w"
  from Suc.prems have earlier: "\<forall>i<k. (\<exists>st. status_of (http w (length (sent w) + i) r) = Some st
      \<and> py_eq_int st 1) \<and> \<not> clock w (ticks w + i) - start > of_int mx"
    by simp
  from Suc.prems obtain st where st: "status_of (http w (length (sent w) + k) r) = Some st"
      "py_eq_int st 1" and tm: "\<not> clock w (ticks w + k) - start > of_int mx"
    by blast
  have "poll_iteration L job_id r iv mx sq start ?wk = (Continue, after_rounds r iv 1 ?wk)"
    by (rule poll_iteration_running [where st = st]) (use st tm assms(1,2) in simp_all)
  then have "poll_loop L job_id r iv mx sq start ?wk
               = poll_loop L job_id r iv mx sq start (after_rounds r iv (Suc k) w)"
    using poll_loop_continue after_rounds_Suc by metis
  with Suc.IH [OF earlier] show ?case by simp
qed

lemma poll_valid:
  assumes "\<not> blank job_id" and "\<not> blank app_id" and "\<not> blank secret_key"
  shows "poll L job_id app_id secret_key iv mx sq w
           = poll_loop L job_id (poll_request job_id app_id secret_key) iv mx sq
               (clock w (ticks w)) (w\<lparr>ticks := Suc (ticks w)\<rparr>)"
  using assms by (simp add: poll_def time_time_def)

lemma poll_after_rounds:
  assumes valid: "\<not> blank job_id" "\<not> blank app_id" "\<not> blank secret_key"
    and iv: "0 \<le> iv"
    and running: "\<forall>i<k. (\<exists>st. status_of (http w (length (sent w) + i)
                            (poll_request job_id app_id secret_key)) = Some st \<and> py_eq_int st 1)
                    \<and> clock w (Suc (ticks w) + i) - clock w (ticks w) \<le> of_int mx"
  shows "poll L job_id app_id secret_key iv mx False w
           = poll_loop L job_id (poll_request job_id app_id secret_key) iv mx False
               (clock w (ticks w))
               (after_rounds (poll_request job_id app_id secret_key) iv k
                  (w\<lparr>ticks := Suc (ticks w)\<rparr>))"
proof -
  let ?r = "poll_request job_id app_id secret_key"
  let ?w1 = "w\<lparr>ticks := Suc (ticks w)\<rparr>"
  from running have "\<forall>i<k. (\<exists>st. status_of (http ?w1 (length (sent ?w1) + i) ?r) = Some st
                             \<and> py_eq_int st 1)
                    \<and> \<not> clock ?w1 (ticks ?w1 + i) - clock w (ticks w) > of_int mx"
    by (simp add: not_less)
  then have "poll_loop L job_id ?r iv mx False (clock w (ticks w)) ?w1
               = poll_loop L job_id ?r iv mx False (clock w (ticks w))
                   (after_rounds ?r iv k ?w1)"
    using iv by (intro poll_loop_rounds) simp_all
  with valid show ?thesis by (simp add: poll_valid)
qed

lemma poll_times_out_after:
  assumes valid: "\<not> blank job_id" "\<not> blank app_id" "\<not> blank secret_key"
    and iv: "0 \<le> iv"
    and running: "\<forall>i\<le>k. \<exists>st. status_of (http w (length (sent w) + i)
                           (poll_request job_id app_id secret_key)) = Some st \<and> py_eq_int st 1"
    and within: "\<forall>i<k. clock w (Suc (ticks w) + i) - clock w (ticks w) \<le> of_int mx"
    and exceeds: "clock w (Suc (ticks w) + k) - clock w (ticks w) > of_int mx"
    and last: "status_of (http w (length (sent w) + k) (poll_request job_id app_id secret_key))
                 = Some st"
  shows "poll L job_id app_id secret_key iv mx False w
           = Some ((dumps L (PDict [(''error'', PStr (msg_timeout mx)),
                                    (''job_id'', PStr job_id), (''last_status'', st)]),
                    PInt (- 1)),
                   w\<lparr>sent := sent w @ replicate (Suc k) (poll_request job_id app_id secret_key),
                     ticks := Suc (Suc (ticks w)) + k,
                     slept := slept w @ replicate k iv\<rparr>)"
proof -
  let ?r = "poll_request job_id app_id secret_key"
  let ?wk = "after_rounds ?r iv k (w\<lparr>ticks := Suc (ticks w)\<rparr>)"
  from running within
  have "\<forall>i<k. (\<exists>st. status_of (http w (length (sent w) + i) ?r) = Some st \<and> py_eq_int st 1)
                \<and> clock w (Suc (ticks w) + i) - clock w (ticks w) \<le> of_int mx"
    by simp
  with valid iv
  have loop: "poll L job_id app_id secret_key iv mx False w
                = poll_loop L job_id ?r iv mx False (clock w (ticks w)) ?wk"
    by (rule poll_after_rounds)
  from running last have one: "py_eq_int st 1" by auto
  have "poll_iteration L job_id ?r iv mx False (clock w (ticks w)) ?wk
          = (Return (dumps L (PDict [(''error'', PStr (msg_timeout mx)),
                                     (''job_id'', PStr job_id), (''last_status'', st)]),
                     PInt (- 1)),
             ?wk\<lparr>sent := sent ?wk @ [?r], ticks := Suc (ticks ?wk)\<rparr>)"
    by (rule poll_iteration_timeout) (use last one exceeds in simp_all)
  then have "poll_loop L job_id ?r iv mx False (clock w (ticks w)) ?wk
               = Some ((dumps L (PDict [(''error'', PStr (msg_timeout mx)),
                                        (''job_id'', PStr job_id), (''last_status'', st)]),
                        PInt (- 1)),
                       ?wk\<lparr>sent := sent ?wk @ [?r], ticks := Suc (ticks ?wk)\<rparr>)"
    by (rule poll_loop_return)
  with loop show ?thesis
    by (simp add: after_rounds_def replicate_append_same)
qed

lemma poll_iteration_single_query:
  "\<exists>res. poll_iteration L job_id r iv mx True start w
           = (Return res, w\<lparr>sent := sent w @ [r]\<rparr>)"
proof (cases "http w (length (sent w)) r")
  case (Inl e)
  then show ?thesis by (simp add: poll_iteration_raised)
next
  case (Inr body)
  then show ?thesis
    by (cases body)
      (simp_all add: poll_iteration_def poll_try_def http_request_def Let_def)
qed

lemma poll_iteration_single_query_status:
  assumes "http w (length (sent w)) r = Inr (PDict kvs)"
    and "map_of kvs ''status'' = Some (PInt n)"
  shows "poll_iteration L job_id r iv mx True start w
           = (Return (dumps_indent L (PDict kvs), PInt n), w\<lparr>sent := sent w @ [r]\<rparr>)"
  using assms
  by (simp add: poll_iteration_def poll_try_def http_request_def Let_def dict_get_def)





section \<open>Lemmas about the submission and the loop of \<^verbatim>\<open>_poll_job_result\<close>\<close>

lemma blank_iff_all_space: "blank s \<longleftrightarrow> list_all is_space s"
proof -
  let ?d = "dropWhile is_space s"
  have nil: "?d = [] \<longleftrightarrow> list_all is_space s"
    by (simp add: dropWhile_eq_Nil_conv list_all_iff)
  have "strip s = [] \<longleftrightarrow> list_all is_space ?d"
    by (simp add: strip_def dropWhile_eq_Nil_conv list_all_iff)
  also have "\<dots> \<longleftrightarrow> ?d = []"
  proof
    assume all: "list_all is_space ?d"
    show "?d = []"
    proof (rule ccontr)
      assume "?d \<noteq> []"
      then have "\<not> is_space (hd ?d)" by (rule hd_dropWhile)
      moreover from \<open>?d \<noteq> []\<close> all have "is_space (hd ?d)"
        by (simp add: list_all_iff)
      ultimately show False by contradiction
    qed
  next
    assume "?d = []"
    then show "list_all is_space ?d" by (simp only: list.pred_inject(1))
  qed
  finally have "strip s = [] \<longleftrightarrow> list_all is_space s"
    using nil by simp
  then show ?thesis by (auto simp: blank_def)
qed

lemma run_blank:
  assumes "blank text \<or> blank app_id \<or> blank secret_key"
  shows "run_try L text app_id secret_key endpoint iv mx auto_poll w
           = Some (Inl (ValueError, msg_empty (first_blank text app_id secret_key)), w)"
    and "submit_try L text app_id secret_key endpoint w
           = (Inl (ValueError, msg_empty (first_blank text app_id secret_key)), w)"
  using assms by (auto simp: run_try_def submit_try_def first_blank_def)



lemma poll_job_loop_return:
  "poll_job_iteration job_id r iv mx start w = (Return res, w')
     \<Longrightarrow> poll_job_loop job_id r iv mx start w = Some (res, w')"
  by (subst poll_job_loop.simps) simp

lemma run_delegates:
  assumes "\<not> blank text" "\<not> blank app_id" "\<not> blank secret_key" "auto_poll"
    and "http w (length (sent w)) (submit_request endpoint app_id secret_key text)
           = Inr (PDict kvs)"
    and "py_eq_int (dict_get kvs ''status'' (PInt 0)) 1"
    and "truthy (dict_get kvs ''id'' (PStr []))"
  shows "run L text app_id secret_key endpoint iv mx auto_poll w
           = (case poll_job_result L (dict_get kvs ''id'' (PStr [])) app_id secret_key iv mx
                     (w\<lparr>sent := sent w @ [submit_request endpoint app_id secret_key text]\<rparr>) of
                None \<Rightarrow> None
              | Some (polled, w') \<Rightarrow> Some (dumps_indent L polled, w'))"
  using assms
  by (simp add: run_def run_try_def http_request_def Let_def split: option.splits)


lemma poll_job_iteration_response:
  assumes "\<not> clock w (ticks w) - start > of_int mx"
    and "http w (length (sent w)) r = Inr (PDict body)"
    and "0 \<le> iv"
  shows "poll_job_iteration job_id r iv mx start w
           = (case spec_transition (dict_get body ''status'' (PInt 0)) of
                Terminal \<Rightarrow>
                  (Return (PDict body), w\<lparr>ticks := Suc (ticks w), sent := sent w @ [r]\<rparr>)
              | Retry \<Rightarrow>
                  (Continue, w\<lparr>ticks := Suc (ticks w), sent := sent w @ [r],
                                slept := slept w @ [iv]\<rparr>))"
  using assms
  by (simp add: poll_job_iteration_def poll_job_try_def time_time_def http_request_def
      time_sleep_def spec_transition_def Let_def)



section \<open>Lemmas about the examples\<close>

lemma scripted_simps [simp]:
  "http (scripted outcomes readings) n r
     = (if n < length outcomes then outcomes ! n
        else Inl (RequestException, ''connection refused''))"
  "sent (scripted outcomes readings) = []"
  "clock (scripted outcomes readings) n = (if n < length readings then readings ! n else 0)"
  "ticks (scripted outcomes readings) = 0"
  "slept (scripted outcomes readings) = []"
  by (simp_all add: scripted_def)

lemma not_blank_examples:
  "\<not> blank ''job-1''" "\<not> blank ''app''" "\<not> blank ''key''" "\<not> blank ''a cat''"
  by code_simp+

lemma extract_urls_1:
  \<open>extract_value python (PStr ''{"urls":["a","b"]}'') ''urls.1'' default_value True
     = NodeOutput [PStr ''b''] [PStr ''b''] [PStr ''b'']\<close>
  \<open>extract_value python (PStr ''{"urls":["a","b"]}'') ''urls.1'' default_value False
     = NodeOutput [PStr ''b''] [PStr ''b''] [PStr ''b'']\<close>
  by code_simp+

lemma extract_a_urls_1:
  \<open>extract_value python (PStr ''{"a":1}'') ''urls.1'' ''X'' True = Tuple [PStr ''X'']\<close>
  \<open>extract_value python (PStr ''{"a":1}'') ''urls.1'' ''X'' False = Tuple [PStr ''X'']\<close>
  by code_simp+

text \<open>The time limit of 250 is passed at the third reading after the start.\<close>

lemma poll_times_out_example:
  "poll python ''job-1'' ''app'' ''key'' 3 250 False world_running
           = Some ((dumps python (PDict [(''error'', PStr (msg_timeout 250)),
                                         (''job_id'', PStr ''job-1''),
                                         (''last_status'', PInt 1)]),
                    PInt (- 1)),
                   world_running
                     \<lparr>sent := replicate 3 (poll_request ''job-1'' ''app'' ''key''),
                       ticks := 4,
                       slept := [3, 3]\<rparr>)"
proof -
  have "poll python ''job-1'' ''app'' ''key'' 3 250 False world_running = Some ((dumps python (PDict [(''error'', PStr (msg_timeout 250)),
                                         (''job_id'', PStr ''job-1''),
                                         (''last_status'', PInt 1)]),
                    PInt (- 1)),
                   world_running
                     \<lparr>sent := sent world_running
                              @ replicate (Suc 2) (poll_request ''job-1'' ''app'' ''key''),
                       ticks := Suc (Suc (ticks world_running)) + 2,
                       slept := slept world_running @ replicate 2 3\<rparr>)"
    by (rule poll_times_out_after [OF not_blank_examples(1-3)])
      (simp_all add: world_running_def job_body_def dict_get_def less_Suc_eq numeral_2_eq_2)
  then show ?thesis by (simp add: world_running_def numeral_2_eq_2 numeral_3_eq_3)
qed



text \<open>
  A submission with an id and status 1 is polled: one status request, which finds the
  job finished, and the body of that response is what \<^verbatim>\<open>run\<close> returns.
\<close>

lemma run_polls_example:
  "run python ''a cat'' ''app'' ''key'' endpoint_default 3 300 True world_job
     = Some (dumps_indent python (job_body 2),
             world_job\<lparr>sent := [submit_request endpoint_default ''app'' ''key'' ''a cat'',
                                job_request (job_url_of ''job-1'') ''app'' ''key''],
                        ticks := 2\<rparr>)"
proof -
  let ?kvs = "[(''id'', PStr ''job-1''), (''status'', PInt 1)]"
  let ?w0 = "world_job\<lparr>sent := sent world_job
        @ [submit_request endpoint_default ''app'' ''key'' ''a cat'']\<rparr>"
  let ?w1 = "?w0\<lparr>ticks := Suc 0\<rparr>"
  let ?r = "job_request (job_url_of ''job-1'') ''app'' ''key''"
  have "poll_job_iteration (PStr ''job-1'') ?r 3 300 0 ?w1
          = (Return (job_body 2), ?w1\<lparr>ticks := Suc (ticks ?w1), sent := sent ?w1 @ [?r]\<rparr>)"
    by (subst poll_job_iteration_response
          [where body = "[(''id'', PStr ''job-1''), (''status'', PInt 2)]"])
      (simp_all add: world_job_def job_body_def spec_transition_def dict_get_def)
  then have "poll_job_loop (PStr ''job-1'') ?r 3 300 0 ?w1
          = Some (job_body 2, ?w1\<lparr>ticks := Suc (ticks ?w1), sent := sent ?w1 @ [?r]\<rparr>)"
    by (rule poll_job_loop_return)
  then have polled: "poll_job_result python (dict_get ?kvs ''id'' (PStr [])) ''app'' ''key'' 3 300 ?w0
          = Some (job_body 2,
                  world_job\<lparr>sent := [submit_request endpoint_default ''app'' ''key'' ''a cat'', ?r],
                             ticks := 2\<rparr>)"
    by (simp add: poll_job_result_def time_time_def dict_get_def world_job_def numeral_2_eq_2)
  have "run python ''a cat'' ''app'' ''key'' endpoint_default 3 300 True world_job
          = (case poll_job_result python (dict_get ?kvs ''id'' (PStr [])) ''app'' ''key'' 3 300 ?w0 of
               None \<Rightarrow> None
             | Some (polled, w') \<Rightarrow> Some (dumps_indent python polled, w'))"
    by (rule run_delegates [OF not_blank_examples(4,2,3)])
      (simp_all add: world_job_def job_body_def dict_get_def)
  with polled show ?thesis by simp
qed

section \<open>The claims\<close>

text \<open>
  Claim C1. A call of \<^verbatim>\<open>poll\<close> with \<^verbatim>\<open>single_query\<close> on and with a job id, an
  app id and a secret key that are not blank returns after one status request: whatever
  the outcome of that request, the world it leaves has one more request sent, the start
  time read, and nothing slept. If the response is an object whose \<^verbatim>\<open>status\<close> is
  the integer \<open>n\<close>, the result is the whole body as indented JSON text with the code
  \<open>n\<close>: code 1 for status 1 with no second request, code 2 for status 2, code 3 for
  status 3.
\<close>

theorem poll_single_query_one_request:
  assumes valid: "\<not> blank job_id" "\<not> blank app_id" "\<not> blank secret_key"
  shows "map_option snd (poll L job_id app_id secret_key poll_interval max_wait_time True w)
           = Some (w\<lparr>sent := sent w @ [poll_request job_id app_id secret_key],
                     ticks := Suc (ticks w)\<rparr>)
         \<and> (http w (length (sent w)) (poll_request job_id app_id secret_key) = Inr (PDict kvs)
              \<and> map_of kvs ''status'' = Some (PInt n)
            \<longrightarrow> poll L job_id app_id secret_key poll_interval max_wait_time True w
                  = Some ((dumps_indent L (PDict kvs), PInt n),
                          w\<lparr>sent := sent w @ [poll_request job_id app_id secret_key],
                            ticks := Suc (ticks w)\<rparr>))"
proof (intro conjI impI)
  let ?r = "poll_request job_id app_id secret_key"
  let ?w1 = "w\<lparr>ticks := Suc (ticks w)\<rparr>"
  obtain res where "poll_iteration L job_id ?r poll_interval max_wait_time True
      (clock w (ticks w)) ?w1 = (Return res, ?w1\<lparr>sent := sent ?w1 @ [?r]\<rparr>)"
    using poll_iteration_single_query by blast
  then have "poll_loop L job_id ?r poll_interval max_wait_time True (clock w (ticks w)) ?w1
               = Some (res, ?w1\<lparr>sent := sent ?w1 @ [?r]\<rparr>)"
    by (rule poll_loop_return)
  with valid
  show "map_option snd (poll L job_id app_id secret_key poll_interval max_wait_time True w)
          = Some (w\<lparr>sent := sent w @ [?r], ticks := Suc (ticks w)\<rparr>)"
    by (simp add: poll_valid)
next
  let ?r = "poll_request job_id app_id secret_key"
  let ?w1 = "w\<lparr>ticks := Suc (ticks w)\<rparr>"
  assume a: "http w (length (sent w)) ?r = Inr (PDict kvs)
               \<and> map_of kvs ''status'' = Some (PInt n)"
  then have "poll_iteration L job_id ?r poll_interval max_wait_time True (clock w (ticks w)) ?w1
               = (Return (dumps_indent L (PDict kvs), PInt n), ?w1\<lparr>sent := sent ?w1 @ [?r]\<rparr>)"
    by (intro poll_iteration_single_query_status) simp_all
  then have "poll_loop L job_id ?r poll_interval max_wait_time True (clock w (ticks w)) ?w1
               = Some ((dumps_indent L (PDict kvs), PInt n), ?w1\<lparr>sent := sent ?w1 @ [?r]\<rparr>)"
    by (rule poll_loop_return)
  with valid
  show "poll L job_id app_id secret_key poll_interval max_wait_time True w
          = Some ((dumps_indent L (PDict kvs), PInt n),
                  w\<lparr>sent := sent w @ [?r], ticks := Suc (ticks w)\<rparr>)"
    by (simp add: poll_valid)
qed

text \<open>An instance: the first response has status 1, and the code is 1.\<close>

theorem poll_single_query_one_request_witness:
  "\<not> blank ''job-1'' \<and> \<not> blank ''app'' \<and> \<not> blank ''key''
   \<and> http world_running (length (sent world_running)) (poll_request ''job-1'' ''app'' ''key'')
       = Inr (PDict [(''id'', PStr ''job-1''), (''status'', PInt 1)])
   \<and> map_of [(''id'', PStr ''job-1''), (''status'', PInt 1)] ''status'' = Some (PInt 1)
   \<and> poll python ''job-1'' ''app'' ''key'' 3 250 True world_running
       = Some ((dumps_indent python (PDict [(''id'', PStr ''job-1''), (''status'', PInt 1)]),
                PInt 1),
               world_running
                 \<lparr>sent := sent world_running @ [poll_request ''job-1'' ''app'' ''key''],
                   ticks := Suc (ticks world_running)\<rparr>)"
proof -
  have body: "http world_running (length (sent world_running))
                (poll_request ''job-1'' ''app'' ''key'')
              = Inr (PDict [(''id'', PStr ''job-1''), (''status'', PInt 1)])"
    by (simp add: world_running_def job_body_def)
  have status: "map_of [(''id'', PStr ''job-1''), (''status'', PInt 1)] ''status'' = Some (PInt 1)"
    by simp
  note res = poll_single_query_one_request [OF not_blank_examples(1-3),
      where L = python and w = world_running and poll_interval = 3 and max_wait_time = 250
        and kvs = "[(''id'', PStr ''job-1''), (''status'', PInt 1)]" and n = 1]
  from not_blank_examples(1-3) body status res show ?thesis
    by blast
qed

text \<open>
  Claim C2. A call of \<^verbatim>\<open>poll\<close> without \<^verbatim>\<open>single_query\<close>, with valid inputs:
  if every response is an object with status 1, and at some reading of the clock after
  a response more than \<^verbatim>\<open>max_wait_time\<close> has passed since the start time (read
  before the first request), then \<^verbatim>\<open>poll\<close> returns, and what it returns is the code
  \<open>-1\<close> and the error object with the message, the job id as it was given and the
  last status, 1. It returns at the first such reading, after \<open>k + 1\<close> requests and
  \<open>k\<close> sleeps. The interval is not negative, as the node's input bounds (1 to 30)
  guarantee.
\<close>

theorem poll_timeout:
  assumes valid: "\<not> blank job_id" "\<not> blank app_id" "\<not> blank secret_key"
    and iv: "0 \<le> poll_interval"
    and running: "\<forall>i. status_of (http w (length (sent w) + i)
                         (poll_request job_id app_id secret_key)) = Some (PInt 1)"
    and exceeds: "\<exists>k. clock w (Suc (ticks w) + k) - clock w (ticks w) > of_int max_wait_time"
  shows "\<exists>k. clock w (Suc (ticks w) + k) - clock w (ticks w) > of_int max_wait_time
           \<and> (\<forall>i<k. clock w (Suc (ticks w) + i) - clock w (ticks w) \<le> of_int max_wait_time)
           \<and> poll L job_id app_id secret_key poll_interval max_wait_time False w
               = Some ((dumps L (PDict [(''error'', PStr (msg_timeout max_wait_time)),
                                        (''job_id'', PStr job_id), (''last_status'', PInt 1)]),
                        PInt (- 1)),
                       w\<lparr>sent := sent w
                                @ replicate (Suc k) (poll_request job_id app_id secret_key),
                         ticks := Suc (Suc (ticks w)) + k,
                         slept := slept w @ replicate k poll_interval\<rparr>)"
proof -
  define late where
    "late i \<longleftrightarrow> clock w (Suc (ticks w) + i) - clock w (ticks w) > of_int max_wait_time" for i
  define k where "k = (LEAST i. late i)"
  from exceeds have "\<exists>i. late i" by (simp add: late_def)
  then have "late k" unfolding k_def by (rule LeastI_ex)
  have "\<not> late i" if "i < k" for i
    using that unfolding k_def by (rule not_less_Least)
  then have within: "\<forall>i<k. clock w (Suc (ticks w) + i) - clock w (ticks w)
                        \<le> of_int max_wait_time"
    by (simp add: late_def not_less)
  from running have run: "\<forall>i\<le>k. \<exists>st. status_of (http w (length (sent w) + i)
      (poll_request job_id app_id secret_key)) = Some st \<and> py_eq_int st 1"
    by simp
  from running have last: "status_of (http w (length (sent w) + k)
      (poll_request job_id app_id secret_key)) = Some (PInt 1)"
    by simp
  from \<open>late k\<close>
  have late: "clock w (Suc (ticks w) + k) - clock w (ticks w) > of_int max_wait_time"
    by (simp add: late_def)
  from late within poll_times_out_after [OF valid iv run within late last]
  show ?thesis by blast
qed

text \<open>An instance: a limit of 250 on a clock that advances by 100.\<close>

theorem poll_timeout_witness:
  "\<not> blank ''job-1'' \<and> \<not> blank ''app'' \<and> \<not> blank ''key'' \<and> (0::int) \<le> 3
   \<and> (\<forall>i. status_of (http world_running (length (sent world_running) + i)
                       (poll_request ''job-1'' ''app'' ''key'')) = Some (PInt 1))
   \<and> (\<exists>k. clock world_running (Suc (ticks world_running) + k)
              - clock world_running (ticks world_running) > of_int 250)
   \<and> (\<exists>k. clock world_running (Suc (ticks world_running) + k)
              - clock world_running (ticks world_running) > of_int 250
         \<and> (\<forall>i<k. clock world_running (Suc (ticks world_running) + i)
                     - clock world_running (ticks world_running) \<le> of_int 250)
         \<and> poll python ''job-1'' ''app'' ''key'' 3 250 False world_running
             = Some ((dumps python (PDict [(''error'', PStr (msg_timeout 250)),
                                           (''job_id'', PStr ''job-1''),
                                           (''last_status'', PInt 1)]),
                      PInt (- 1)),
                     world_running
                       \<lparr>sent := sent world_running
                                @ replicate (Suc k) (poll_request ''job-1'' ''app'' ''key''),
                         ticks := Suc (Suc (ticks world_running)) + k,
                         slept := slept world_running @ replicate k 3\<rparr>))"
proof -
  have iv: "(0::int) \<le> 3" by simp
  have running: "\<forall>i. status_of (http world_running (length (sent world_running) + i)
                         (poll_request ''job-1'' ''app'' ''key'')) = Some (PInt 1)"
    by (simp add: world_running_def job_body_def dict_get_def)
  have "clock world_running (Suc (ticks world_running) + 2)
          - clock world_running (ticks world_running) > of_int 250"
    by (simp add: world_running_def)
  then have exceeds: "\<exists>k. clock world_running (Suc (ticks world_running) + k)
              - clock world_running (ticks world_running) > of_int 250" ..
  note res = poll_timeout [OF not_blank_examples(1-3) iv running exceeds, of python]
  from not_blank_examples(1-3) iv running exceeds res show ?thesis
    by blast
qed

text \<open>
  Claim C3 says that the value \<^verbatim>\<open>extract\<close> returns as its result is the string of
  the formatting step, whatever the attempt to parse that string again gives. The code
  puts \<^verbatim>\<open>formatted_result\<close>, the parsed value, into the result tuple. Evaluated: for
  \<^verbatim>\<open>{"a": 1}\<close> and the key path \<^verbatim>\<open>a\<close> the formatting step gives the string
  \<^verbatim>\<open>"1"\<close> and the tuple holds the integer 1; for \<^verbatim>\<open>{"urls":["a","b"]}\<close> and the
  key path \<^verbatim>\<open>urls\<close>, with \<^verbatim>\<open>return_as_string\<close> on, the tuple holds the list and
  not its JSON text.
\<close>

theorem extract_returns_reparsed_value:
  \<open>format_result python True (PInt 1) = ''1''
   \<and> extract_value python (PStr ''{"a": 1}'') ''a'' '''' True
       = NodeOutput [PInt 1] [PStr ''1''] [PInt 1]
   \<and> extract_value python (PStr ''{"urls":["a","b"]}'') ''urls'' '''' True
       = NodeOutput [PList [PStr ''a'', PStr ''b'']]
           [PStr (dumps_indent python (PList [PStr ''a'', PStr ''b'']))]
           [PList [PStr ''a'', PStr ''b'']]\<close>
  by code_simp




text \<open>
  Claim C5. When \<^verbatim>\<open>text\<close>, \<^verbatim>\<open>app_id\<close> or \<^verbatim>\<open>secret_key\<close> is empty or consists
  of whitespace only (\<open>blank\<close>, see \<open>blank_iff_all_space\<close>), \<^verbatim>\<open>run\<close> and
  \<^verbatim>\<open>submit\<close> return the JSON text of an object with the single key \<^verbatim>\<open>error\<close>
  (\<^verbatim>\<open>submit\<close> with an empty job id beside it), and the world is as it was: no
  request has been sent. The result is a value: no exception leaves either function.
\<close>

theorem blank_input_error_without_request:
  assumes "blank text \<or> blank app_id \<or> blank secret_key"
  shows "run L text app_id secret_key endpoint poll_interval max_wait_time auto_poll w
           = Some (dumps L (PDict [(''error'', PStr (msg_unknown_error
                      (msg_empty (first_blank text app_id secret_key))))]), w)
         \<and> submit L text app_id secret_key endpoint w
           = ((PStr [], dumps L (PDict [(''error'', PStr (msg_unknown_error
                      (msg_empty (first_blank text app_id secret_key))))])), w)"
  using assms
  by (simp add: run_def submit_def run_blank submit_except_def)

text \<open>An instance: a text of two spaces.\<close>

theorem blank_input_error_without_request_witness:
  "(blank ''  '' \<or> blank ''app'' \<or> blank ''key'')
   \<and> run python ''  '' ''app'' ''key'' ''https://ali.youchuan.cn/v1/tob/diffusion''
               3 300 True world_running
       = Some (dumps python (PDict [(''error'', PStr (msg_unknown_error
                  (msg_empty (first_blank ''  '' ''app'' ''key''))))]), world_running)
   \<and> submit python ''  '' ''app'' ''key'' ''https://ali.youchuan.cn/v1/tob/diffusion''
               world_running
       = ((PStr [], dumps python (PDict [(''error'', PStr (msg_unknown_error
                  (msg_empty (first_blank ''  '' ''app'' ''key''))))])), world_running)"
proof -
  have "blank ''  ''" by code_simp
  then have h: "blank ''  '' \<or> blank ''app'' \<or> blank ''key''" ..
  from h blank_input_error_without_request [OF h] show ?thesis by blast
qed



text \<open>
  Claim C7. A call of \<^verbatim>\<open>poll\<close> without \<^verbatim>\<open>single_query\<close>, with valid inputs: when,
  after \<open>k\<close> responses with status 1 received within the time limit, the next response
  is an object whose status is an integer other than 1, 2 and 3, \<^verbatim>\<open>poll\<close> returns at
  once the whole body as indented JSON text, with that status as the code. It has then
  sent \<open>k + 1\<close> requests and no more. (\<open>k = 0\<close>: the first response.) The interval
  is not negative, as the node's input bounds (1 to 30) guarantee.
\<close>

theorem poll_unknown_status_terminal:
  assumes valid: "\<not> blank job_id" "\<not> blank app_id" "\<not> blank secret_key"
    and iv: "0 \<le> poll_interval"
    and running: "\<forall>i<k. status_of (http w (length (sent w) + i)
                            (poll_request job_id app_id secret_key)) = Some (PInt 1)
                    \<and> clock w (Suc (ticks w) + i) - clock w (ticks w) \<le> of_int max_wait_time"
    and body: "http w (length (sent w) + k) (poll_request job_id app_id secret_key)
                 = Inr (PDict kvs)"
    and status: "map_of kvs ''status'' = Some (PInt n)"
    and other: "n \<noteq> 1" "n \<noteq> 2" "n \<noteq> 3"
  shows "poll L job_id app_id secret_key poll_interval max_wait_time False w
           = Some ((dumps_indent L (PDict kvs), PInt n),
                   w\<lparr>sent := sent w @ replicate (Suc k) (poll_request job_id app_id secret_key),
                     ticks := Suc (ticks w) + k,
                     slept := slept w @ replicate k poll_interval\<rparr>)"
proof -
  let ?r = "poll_request job_id app_id secret_key"
  let ?wk = "after_rounds ?r poll_interval k (w\<lparr>ticks := Suc (ticks w)\<rparr>)"
  from running have "\<forall>i<k. (\<exists>st. status_of (http w (length (sent w) + i) ?r) = Some st
                             \<and> py_eq_int st 1)
                    \<and> clock w (Suc (ticks w) + i) - clock w (ticks w) \<le> of_int max_wait_time"
    by simp
  with valid iv
  have loop: "poll L job_id app_id secret_key poll_interval max_wait_time False w
                = poll_loop L job_id ?r poll_interval max_wait_time False (clock w (ticks w)) ?wk"
    by (rule poll_after_rounds)
  from status have st: "PInt n = dict_get kvs ''status'' (PInt 0)"
    by (simp add: dict_get_def)
  have "poll_iteration L job_id ?r poll_interval max_wait_time False (clock w (ticks w)) ?wk
          = (Return (dumps_indent L (PDict kvs), PInt n), ?wk\<lparr>sent := sent ?wk @ [?r]\<rparr>)"
    by (rule poll_iteration_other [OF _ st]) (use body other in simp_all)
  then have "poll_loop L job_id ?r poll_interval max_wait_time False (clock w (ticks w)) ?wk
               = Some ((dumps_indent L (PDict kvs), PInt n), ?wk\<lparr>sent := sent ?wk @ [?r]\<rparr>)"
    by (rule poll_loop_return)
  with loop show ?thesis
    by (simp add: after_rounds_def replicate_append_same)
qed

text \<open>An instance: two responses with status 1, then status 7.\<close>

theorem poll_unknown_status_terminal_witness:
  "\<not> blank ''job-1'' \<and> \<not> blank ''app'' \<and> \<not> blank ''key'' \<and> (0::int) \<le> 3
   \<and> status_of (http world_unknown (length (sent world_unknown) + 0)
                  (poll_request ''job-1'' ''app'' ''key'')) = Some (PInt 1)
   \<and> clock world_unknown (Suc (ticks world_unknown) + 0)
         - clock world_unknown (ticks world_unknown) \<le> of_int 300
   \<and> status_of (http world_unknown (length (sent world_unknown) + 1)
                  (poll_request ''job-1'' ''app'' ''key'')) = Some (PInt 1)
   \<and> clock world_unknown (Suc (ticks world_unknown) + 1)
         - clock world_unknown (ticks world_unknown) \<le> of_int 300
   \<and> http world_unknown (length (sent world_unknown) + 2)
         (poll_request ''job-1'' ''app'' ''key'')
       = Inr (PDict [(''id'', PStr ''job-1''), (''status'', PInt 7)])
   \<and> map_of [(''id'', PStr ''job-1''), (''status'', PInt 7)] ''status'' = Some (PInt 7)
   \<and> poll python ''job-1'' ''app'' ''key'' 3 300 False world_unknown
       = Some ((dumps_indent python (PDict [(''id'', PStr ''job-1''), (''status'', PInt 7)]),
                PInt 7),
               world_unknown
                 \<lparr>sent := sent world_unknown
                          @ replicate (Suc 2) (poll_request ''job-1'' ''app'' ''key''),
                   ticks := Suc (ticks world_unknown) + 2,
                   slept := slept world_unknown @ replicate 2 3\<rparr>)"
proof -
  let ?w = world_unknown
  let ?r = "poll_request ''job-1'' ''app'' ''key''"
  have iv: "(0::int) \<le> 3" by simp
  have r0: "status_of (http ?w (length (sent ?w) + 0) ?r) = Some (PInt 1)"
    and c0: "clock ?w (Suc (ticks ?w) + 0) - clock ?w (ticks ?w) \<le> of_int 300"
    and r1: "status_of (http ?w (length (sent ?w) + 1) ?r) = Some (PInt 1)"
    and c1: "clock ?w (Suc (ticks ?w) + 1) - clock ?w (ticks ?w) \<le> of_int 300"
    by (simp_all add: world_unknown_def job_body_def dict_get_def)
  have running: "\<forall>i<2. status_of (http ?w (length (sent ?w) + i) ?r) = Some (PInt 1)
                  \<and> clock ?w (Suc (ticks ?w) + i) - clock ?w (ticks ?w) \<le> of_int 300"
    using r0 c0 r1 c1 by (simp add: less_Suc_eq numeral_2_eq_2)
  have body: "http ?w (length (sent ?w) + 2) ?r
                = Inr (PDict [(''id'', PStr ''job-1''), (''status'', PInt 7)])"
    by (simp add: world_unknown_def job_body_def)
  have status: "map_of [(''id'', PStr ''job-1''), (''status'', PInt 7)] ''status'' = Some (PInt 7)"
    by simp
  note res = poll_unknown_status_terminal
    [OF not_blank_examples(1-3) iv running body status, of python]
  from not_blank_examples(1-3) iv r0 c0 r1 c1 body status res show ?thesis
    by simp
qed

text \<open>
  Claim C8. A string \<open>json_input\<close> that is not valid JSON (\<^verbatim>\<open>json.loads\<close> raises
  \<^verbatim>\<open>JSONDecodeError\<close>) makes \<^verbatim>\<open>extract\<close> return the tuple of the caller's
  \<open>default_value\<close>, for every key path, default value and \<open>return_as_string\<close>. The
  result is a value of \<open>extract_out\<close>: no exception leaves the function.
\<close>

theorem extract_malformed_json_default:
  "loads L s = None \<Longrightarrow>
     extract_value L (PStr s) key_path default_value return_as_string
       = Tuple [PStr default_value]"
  by (simp add: extract_value_cases extract_try_def parse_input_def)

text \<open>An instance: the text \<^verbatim>\<open>{bad\<close>.\<close>

theorem extract_malformed_json_default_witness:
  "loads python ''{bad'' = None \<and>
   extract_value python (PStr ''{bad'') ''urls.0'' ''X'' True = Tuple [PStr ''X'']"
proof -
  have h: "loads python ''{bad'' = None" by code_simp
  from h extract_malformed_json_default [OF h, of "''urls.0''" "''X''" True]
  show ?thesis by simp
qed

text \<open>
  Claim C9. On the text \<^verbatim>\<open>{"urls":["a","b"]}\<close> the key path \<^verbatim>\<open>urls.1\<close> yields
  \<^verbatim>\<open>"b"\<close>; on \<^verbatim>\<open>{"a":1}\<close> the same path with the default \<^verbatim>\<open>"X"\<close> yields
  \<^verbatim>\<open>"X"\<close>. In general, when the walk along the key path has reached a dictionary
  that lacks the next segment, or a list for which the next segment is an index out of
  range, \<^verbatim>\<open>extract\<close> returns the tuple of \<open>default_value\<close>.
\<close>

theorem extract_path_or_default:
  \<open>extract_value python (PStr ''{"urls":["a","b"]}'') ''urls.1'' default_value return_as_string
     = NodeOutput [PStr ''b''] [PStr ''b''] [PStr ''b'']
   \<and> extract_value python (PStr ''{"a":1}'') ''urls.1'' ''X'' return_as_string
     = Tuple [PStr ''X'']
   \<and> (parse_input L json_input = Inr data
        \<and> split_on CHR ''.'' (strip key_path) = ks1 @ key # ks2
        \<and> traverse data ks1 = Inr node
        \<and> ((\<exists>kvs. node = PDict kvs \<and> map_of kvs key = None)
           \<or> (\<exists>xs i. node = PList xs \<and> isdigit key \<and> py_int key = Some i
                 \<and> int (length xs) \<le> i))
      \<longrightarrow> extract_value L json_input key_path dflt ras = Tuple [PStr dflt])\<close>
proof (intro conjI impI)
  show \<open>extract_value python (PStr ''{"urls":["a","b"]}'') ''urls.1'' default_value
          return_as_string = NodeOutput [PStr ''b''] [PStr ''b''] [PStr ''b'']\<close>
    by (cases return_as_string) (simp_all only: extract_urls_1)
  show \<open>extract_value python (PStr ''{"a":1}'') ''urls.1'' ''X'' return_as_string
          = Tuple [PStr ''X'']\<close>
    by (cases return_as_string) (simp_all only: extract_a_urls_1)
next
  assume a: \<open>parse_input L json_input = Inr data
        \<and> split_on CHR ''.'' (strip key_path) = ks1 @ key # ks2
        \<and> traverse data ks1 = Inr node
        \<and> ((\<exists>kvs. node = PDict kvs \<and> map_of kvs key = None)
           \<or> (\<exists>xs i. node = PList xs \<and> isdigit key \<and> py_int key = Some i
                 \<and> int (length xs) \<le> i))\<close>
  then have "traverse node (key # ks2) = Inl KeyError"
    using traverse_missing_key traverse_out_of_range by blast
  with a have "traverse data (split_on CHR ''.'' (strip key_path)) = Inl KeyError"
    by (simp add: traverse_append)
  with a show "extract_value L json_input key_path dflt ras = Tuple [PStr dflt]"
    by (simp add: extract_value_cases extract_try_def)
qed

text \<open>An instance of the general part: the second example, where \<^verbatim>\<open>urls\<close> is missing.\<close>

theorem extract_path_or_default_witness:
  \<open>parse_input python (PStr ''{"a":1}'') = Inr (PDict [(''a'', PInt 1)])
   \<and> split_on CHR ''.'' (strip ''urls.1'') = [] @ ''urls'' # [''1'']
   \<and> traverse (PDict [(''a'', PInt 1)]) [] = Inr (PDict [(''a'', PInt 1)])
   \<and> map_of [(''a'', PInt 1)] ''urls'' = None
   \<and> extract_value python (PStr ''{"a":1}'') ''urls.1'' ''X'' True = Tuple [PStr ''X'']\<close>
proof -
  have h1: \<open>parse_input python (PStr ''{"a":1}'') = Inr (PDict [(''a'', PInt 1)])\<close>
    by code_simp
  have h2: "split_on CHR ''.'' (strip ''urls.1'') = [] @ ''urls'' # [''1'']"
    by code_simp
  have h3: "traverse (PDict [(''a'', PInt 1)]) [] = Inr (PDict [(''a'', PInt 1)])"
    by simp
  have h4: "map_of [(''a'', PInt 1)] ''urls'' = None"
    by simp
  from h1 h2 h3 h4
    extract_path_or_default [of _ _ python \<open>PStr ''{"a":1}''\<close> "PDict [(''a'', PInt 1)]"
      "''urls.1''" "[]" "''urls''" "[''1'']" "PDict [(''a'', PInt 1)]" "''X''" True]
  show ?thesis by blast
qed



end
